theory Spec2Isabelle
  imports Complex_Main "HOL-Library.Word"
begin

section \<open>Python values and exceptions\<close>

text \<open>
  The notebook \<^verbatim>\<open>hu_explore_demo/temp.ipynb\<close> is the only program text of the
  repository. Its functions raise and catch Python exceptions, so an exception is a
  value: its class and its message. \<^verbatim>\<open>except Exception\<close> catches every instance of
  \<^verbatim>\<open>Exception\<close>; \<^verbatim>\<open>KeyboardInterrupt\<close>, \<^verbatim>\<open>SystemExit\<close> and \<^verbatim>\<open>GeneratorExit\<close> derive from
  \<^verbatim>\<open>BaseException\<close> only and pass through such a handler.
\<close>

datatype exc_class =
    ValueError
  | IndexError
  | UnicodeDecodeError
  | NoSuchKey
  | NoSuchBucket
  | ParserError
  | RateLimitError
  | APIConnectionError
  | OtherException string
  | KeyboardInterrupt
  | SystemExit
  | GeneratorExit

datatype py_exception = Raised exc_class string

fun isinstance_Exception :: "py_exception \<Rightarrow> bool" where
  "isinstance_Exception (Raised KeyboardInterrupt _) = False"
| "isinstance_Exception (Raised SystemExit _) = False"
| "isinstance_Exception (Raised GeneratorExit _) = False"
| "isinstance_Exception (Raised _ _) = True"

type_synonym byte = "8 word"

definition NL :: char where
  "NL = CHR 0x0A"

section \<open>Module constants\<close>

definition BUCKET :: string where
  "BUCKET = ''hu-explorer-demo''"

definition DATA_VIEWER_SYSTEM_PROMPT :: string where
  "DATA_VIEWER_SYSTEM_PROMPT =
     ''You a data analyizer/synthesizer. The user will'' @ [NL] @
     ''provide a prompt they wish to be applied to each row in a table of clinical'' @ [NL] @
     ''trial data, creating a new column of responses across that table. You will be'' @ [NL] @
     ''given a single row of data from that table and you will provide an appropriate'' @ [NL] @
     ''response that will be used as content in this new column. Provide only this'' @ [NL] @
     ''content with no additional explanation or apology.''"

definition DATA_VIEWER_ROWWISE_PROMPT :: string where
  "DATA_VIEWER_ROWWISE_PROMPT =
     [NL] @
     ''# User Prompt'' @ [NL] @
     [NL] @
     ''{}'' @ [NL] @
     [NL] @
     ''---  '' @ [NL] @
     [NL] @
     ''# Row Data'' @ [NL] @
     [NL] @
     ''```'' @ [NL] @
     ''{}'' @ [NL] @
     ''```'' @ [NL]"

section \<open>\<^verbatim>\<open>str.format\<close> with automatically numbered fields\<close>

text \<open>
  \<^verbatim>\<open>template.format(a0, a1, ...)\<close>: each \<^verbatim>\<open>{}\<close> is replaced by the next positional
  argument (the arguments are strings here, so \<^verbatim>\<open>str(a) = a\<close>), \<^verbatim>\<open>{{\<close> and \<^verbatim>\<open>}}\<close> are
  literal braces, a lone \<^verbatim>\<open>}\<close> raises ValueError and a field with no argument left
  raises IndexError. The inserted argument is not scanned again. Unused arguments
  are ignored. The notebook's template has empty fields only; a field with a name,
  an index or a format specification is outside this model and reported as
  \<^verbatim>\<open>OtherException\<close>.
\<close>

fun str_format :: "string \<Rightarrow> string list \<Rightarrow> py_exception + string" where
  "str_format [] args = Inr []"
| "str_format (c # cs) args =
     (if c = CHR ''{'' then
        (case cs of
           [] \<Rightarrow> Inl (Raised ValueError ''Single '{' encountered in format string'')
         | d # rest \<Rightarrow>
             if d = CHR ''{'' then map_sum id ((#) CHR ''{'') (str_format rest args)
             else if d = CHR ''}'' then
               (case args of
                  [] \<Rightarrow> Inl (Raised IndexError
                         ''Replacement index out of range for positional args tuple'')
                | a # as \<Rightarrow> map_sum id ((@) a) (str_format rest as))
             else Inl (Raised (OtherException ''field syntax outside the model'') []))
      else if c = CHR ''}'' then
        (case cs of
           [] \<Rightarrow> Inl (Raised ValueError ''Single '}' encountered in format string'')
         | d # rest \<Rightarrow>
             if d = CHR ''}'' then map_sum id ((#) CHR ''}'') (str_format rest args)
             else Inl (Raised ValueError ''Single '}' encountered in format string''))
      else map_sum id ((#) c) (str_format cs args))"

section \<open>The chat-completion client\<close>

text \<open>
  \<^verbatim>\<open>client.chat.completions.create(model=, messages=, max_tokens=, temperature=)\<close>
  is a call to a hosted service. The service is a parameter \<open>backend\<close> of the model:
  it answers a request with a completion or raises. The client records every request
  it sends, so that what a function sends can be stated.
\<close>

record chat_request =
  req_model :: string
  req_messages :: "(string \<times> string) list"
  req_max_tokens :: int
  req_temperature :: real

record chat_message =
  msg_role :: string
  msg_content :: "string option"

record chat_choice =
  message :: chat_message

record chat_completion =
  choices :: "chat_choice list"

record openai_client =
  api_key :: string
  sent :: "chat_request list"

type_synonym backend = "chat_request \<Rightarrow> py_exception + chat_completion"

definition chat_completions_create ::
  "backend \<Rightarrow> openai_client \<Rightarrow> chat_request \<Rightarrow> (py_exception + chat_completion) \<times> openai_client" where
  "chat_completions_create backend cl req = (backend req, cl\<lparr>sent := sent cl @ [req]\<rparr>)"

text \<open>What \<^verbatim>\<open>query_gpt\<close> can return: a string, or the message object of the first choice.\<close>

datatype py_value = PyStr string | PyMessage chat_message

text \<open>
  \<^verbatim>\<open>
  def query_gpt(prompt, system_prompt, model="gpt-4o", temperature=0.0) -> str:
      try:
          response = client.chat.completions.create(model=model,
              messages=[{"role": "system", "content": system_prompt},
                        {"role": "user", "content": prompt}],
              max_tokens=4096, temperature=temperature)
          msg = response.choices[0].message
          return msg#.content.strip()
      except Exception as e:
          return "Error in GPT query"
  \<close>
  The body of the \<^verbatim>\<open>try\<close> is \<open>query_gpt_try\<close>; \<^verbatim>\<open>response.choices[0]\<close> raises
  IndexError on an empty list. The handler is \<open>query_gpt\<close> itself.
\<close>

definition query_gpt_default_model :: string where
  "query_gpt_default_model = ''gpt-4o''"

definition query_gpt_default_temperature :: real where
  "query_gpt_default_temperature = 0.0"

definition query_gpt_request :: "string \<Rightarrow> string \<Rightarrow> string \<Rightarrow> real \<Rightarrow> chat_request" where
  "query_gpt_request prompt system_prompt model temperature =
     \<lparr>req_model = model,
      req_messages = [(''system'', system_prompt), (''user'', prompt)],
      req_max_tokens = 4096,
      req_temperature = temperature\<rparr>"

definition query_gpt_try ::
  "backend \<Rightarrow> openai_client \<Rightarrow> string \<Rightarrow> string \<Rightarrow> string \<Rightarrow> real
     \<Rightarrow> (py_exception + py_value) \<times> openai_client" where
  "query_gpt_try backend cl prompt system_prompt model temperature =
     (case chat_completions_create backend cl
             (query_gpt_request prompt system_prompt model temperature) of
        (Inl e, cl') \<Rightarrow> (Inl e, cl')
      | (Inr response, cl') \<Rightarrow>
          (case choices response of
             [] \<Rightarrow> (Inl (Raised IndexError ''list index out of range''), cl')
           | c # _ \<Rightarrow> (Inr (PyMessage (message c)), cl')))"

definition query_gpt ::
  "backend \<Rightarrow> openai_client \<Rightarrow> string \<Rightarrow> string \<Rightarrow> string \<Rightarrow> real
     \<Rightarrow> (py_exception + py_value) \<times> openai_client" where
  "query_gpt backend cl prompt system_prompt model temperature =
     (case query_gpt_try backend cl prompt system_prompt model temperature of
        (Inl e, cl') \<Rightarrow>
          if isinstance_Exception e then (Inr (PyStr ''Error in GPT query''), cl')
          else (Inl e, cl')
      | (Inr v, cl') \<Rightarrow> (Inr v, cl'))"

text \<open>
  \<^verbatim>\<open>
  def generate_data_viewer_gpt_apply_func(user_prompt):
      def func(row_data):
          prompt = DATA_VIEWER_ROWWISE_PROMPT.format(user_prompt, row_data)
          return query_gpt(prompt, DATA_VIEWER_SYSTEM_PROMPT)
      return func
  \<close>
  The returned closure is the partial application of the definition below to
  \<open>user_prompt\<close>. The call to \<^verbatim>\<open>format\<close> is outside any handler.
\<close>

definition generate_data_viewer_gpt_apply_func ::
  "backend \<Rightarrow> string \<Rightarrow> openai_client \<Rightarrow> string \<Rightarrow> (py_exception + py_value) \<times> openai_client" where
  "generate_data_viewer_gpt_apply_func backend user_prompt cl row_data =
     (case str_format DATA_VIEWER_ROWWISE_PROMPT [user_prompt, row_data] of
        Inl e \<Rightarrow> (Inl e, cl)
      | Inr prompt \<Rightarrow>
          query_gpt backend cl prompt DATA_VIEWER_SYSTEM_PROMPT
            query_gpt_default_model query_gpt_default_temperature)"

section \<open>Module initialisation\<close>

text \<open>
  \<^verbatim>\<open>
  load_dotenv()
  s3 = boto3.client('s3')
  api_key = os.environ.get("API_KEY")
  if not api_key:
      raise ValueError("API_KEY environment variable not set")
  client = OpenAI(api_key=api_key)
  \<close>
  The interpreter state holds \<^verbatim>\<open>os.environ\<close> and the list of API keys with which
  the \<^verbatim>\<open>OpenAI\<close> constructor has been called. \<^verbatim>\<open>load_dotenv()\<close> adds the variables
  of a \<^verbatim>\<open>.env\<close> file that the environment does not define yet (it does not override).
  \<^verbatim>\<open>boto3.client('s3')\<close> makes a handle to the object store and reads no API key; the
  store is the \<open>s3_client\<close> of the next section. \<^verbatim>\<open>not api_key\<close> holds for
  \<^verbatim>\<open>None\<close> and for the empty string.
\<close>

record interpreter =
  environ :: "string \<rightharpoonup> string"
  openai_constructed :: "string list"

definition load_dotenv :: "(string \<rightharpoonup> string) \<Rightarrow> interpreter \<Rightarrow> interpreter" where
  "load_dotenv dotenv st = st\<lparr>environ := dotenv ++ environ st\<rparr>"

definition OpenAI :: "string \<Rightarrow> interpreter \<Rightarrow> openai_client \<times> interpreter" where
  "OpenAI key st =
     (\<lparr>api_key = key, sent = []\<rparr>, st\<lparr>openai_constructed := openai_constructed st @ [key]\<rparr>)"

definition init_client :: "interpreter \<Rightarrow> (py_exception + openai_client) \<times> interpreter" where
  "init_client st =
     (case environ st ''API_KEY'' of
        None \<Rightarrow> (Inl (Raised ValueError ''API_KEY environment variable not set''), st)
      | Some key \<Rightarrow>
          if key = [] then (Inl (Raised ValueError ''API_KEY environment variable not set''), st)
          else (case OpenAI key st of (cl, st') \<Rightarrow> (Inr cl, st')))"

definition module_init ::
  "(string \<rightharpoonup> string) \<Rightarrow> interpreter \<Rightarrow> (py_exception + openai_client) \<times> interpreter" where
  "module_init dotenv st = init_client (load_dotenv dotenv st)"

section \<open>The object store and the dataset reader\<close>

text \<open>
  The S3 client is a store of buckets, each a map from keys to bytes, together with
  the list of calls made on it. \<^verbatim>\<open>get_object\<close> raises \<^verbatim>\<open>NoSuchBucket\<close> or
  \<^verbatim>\<open>NoSuchKey\<close>; \<^verbatim>\<open>put_object\<close> and \<^verbatim>\<open>delete_object\<close> are the calls that change
  a bucket (the notebook has one \<^verbatim>\<open>delete_object\<close>, commented out).
\<close>

datatype s3_call =
    GetObject string string
  | PutObject string string "byte list"
  | DeleteObject string string

record s3_client =
  buckets :: "string \<rightharpoonup> (string \<rightharpoonup> byte list)"
  s3_calls :: "s3_call list"

definition get_object ::
  "s3_client \<Rightarrow> string \<Rightarrow> string \<Rightarrow> (py_exception + byte list) \<times> s3_client" where
  "get_object cl bucket key =
     ((case buckets cl bucket of
         None \<Rightarrow> Inl (Raised NoSuchBucket bucket)
       | Some objs \<Rightarrow>
           (case objs key of
              None \<Rightarrow> Inl (Raised NoSuchKey key)
            | Some body \<Rightarrow> Inr body)),
      cl\<lparr>s3_calls := s3_calls cl @ [GetObject bucket key]\<rparr>)"

definition put_object ::
  "s3_client \<Rightarrow> string \<Rightarrow> string \<Rightarrow> byte list \<Rightarrow> (py_exception + unit) \<times> s3_client" where
  "put_object cl bucket key body =
     (case buckets cl bucket of
        None \<Rightarrow> (Inl (Raised NoSuchBucket bucket),
                 cl\<lparr>s3_calls := s3_calls cl @ [PutObject bucket key body]\<rparr>)
      | Some objs \<Rightarrow>
          (Inr (),
           cl\<lparr>buckets := (buckets cl)(bucket \<mapsto> objs(key \<mapsto> body)),
              s3_calls := s3_calls cl @ [PutObject bucket key body]\<rparr>))"

definition delete_object ::
  "s3_client \<Rightarrow> string \<Rightarrow> string \<Rightarrow> (py_exception + unit) \<times> s3_client" where
  "delete_object cl bucket key =
     (case buckets cl bucket of
        None \<Rightarrow> (Inl (Raised NoSuchBucket bucket),
                 cl\<lparr>s3_calls := s3_calls cl @ [DeleteObject bucket key]\<rparr>)
      | Some objs \<Rightarrow>
          (Inr (),
           cl\<lparr>buckets := (buckets cl)(bucket \<mapsto> objs(key := None)),
              s3_calls := s3_calls cl @ [DeleteObject bucket key]\<rparr>))"

text \<open>
  \<^verbatim>\<open>
  def s3_load_trials_csv(_client, _bucket, _key='table/clinical_trials.csv'):
      response = _client.get_object(Bucket=_bucket, Key=_key)
      csv_data = response['Body'].read().decode('utf-8')
      return pd.read_csv(StringIO(csv_data))
  \<close>
  \<^verbatim>\<open>bytes.decode('utf-8')\<close> and \<^verbatim>\<open>pandas.read_csv\<close> are library functions; they are
  the parameters \<open>decode\<close> and \<open>read_csv\<close>, each returning a value or raising.
\<close>

definition s3_load_trials_csv_default_key :: string where
  "s3_load_trials_csv_default_key = ''table/clinical_trials.csv''"

definition s3_load_trials_csv ::
  "(byte list \<Rightarrow> py_exception + 'text) \<Rightarrow> ('text \<Rightarrow> py_exception + 'df)
     \<Rightarrow> s3_client \<Rightarrow> string \<Rightarrow> string \<Rightarrow> (py_exception + 'df) \<times> s3_client" where
  "s3_load_trials_csv decode read_csv cl bucket key =
     (case get_object cl bucket key of
        (Inl e, cl') \<Rightarrow> (Inl e, cl')
      | (Inr body, cl') \<Rightarrow>
          (case decode body of
             Inl e \<Rightarrow> (Inl e, cl')
           | Inr csv_data \<Rightarrow> (read_csv csv_data, cl')))"

section \<open>The ingestion pipeline\<close>

text \<open>
  Modelled from the spec: the ingestion pipeline \<^verbatim>\<open>ingest\<close> (spec sections 3, 4.1, 5
  and 6). The repository holds no code for it: the container files start
  \<^verbatim>\<open>hu_explore_demo/main.py\<close>, which is absent, and the README only plans the upload
  tab. Everything in this section follows the words of the spec.

  The fingerprint is a hash of the content bytes (the parameter \<open>H\<close>); the extractor
  is the external function \<open>extract\<close>, which returns a summary and the form data or
  fails with a reason. Form data is an ordered mapping from field names to scalar
  values; the values are kept as text, so no column changes its type.
\<close>

type_synonym fingerprint = string
type_synonym form_data = "(string \<times> string) list"
type_synonym hash = "byte list \<Rightarrow> fingerprint"
type_synonym extractor = "byte list \<Rightarrow> string + (string \<times> form_data)"

record UploadRecord =
  content :: "byte list"
  displayName :: string

record ProcessedArtifact =
  summary :: string
  formData :: form_data
  sourceFingerprint :: fingerprint

record DatasetRow =
  row_cells :: form_data
  filename :: string
  fingerprint :: fingerprint

datatype Outcome =
    Ingested fingerprint
  | AlreadyProcessed fingerprint
  | ExtractionFailed fingerprint string
  | StorageUnavailable fingerprint

text \<open>
  Modelled from the spec: the persisted layout of section 6, which no code of the
  repository writes: \<^verbatim>\<open>raw/<name>\<close>, \<^verbatim>\<open>processed/<fingerprint>/summary.txt\<close>,
  \<^verbatim>\<open>processed/<fingerprint>/form_data.json\<close>, \<^verbatim>\<open>processed/<fingerprint>/raw.pdf\<close> and the
  cumulative \<^verbatim>\<open>table/trials.csv\<close> with the version that a conditional write checks.
\<close>

record Store =
  raw :: "string \<rightharpoonup> byte list"
  summary_txt :: "fingerprint \<rightharpoonup> string"
  form_data_json :: "fingerprint \<rightharpoonup> form_data"
  raw_pdf :: "fingerprint \<rightharpoonup> byte list"
  trials_csv :: "DatasetRow list"
  trials_version :: nat

definition empty_store :: Store where
  "empty_store =
     \<lparr>raw = Map.empty, summary_txt = Map.empty, form_data_json = Map.empty,
      raw_pdf = Map.empty, trials_csv = [], trials_version = 0\<rparr>"

text \<open>
  Modelled from the spec: the existence check of step 2, absent from the repository.
  Does a ProcessedArtifact exist for the fingerprint, in the persisted state?
\<close>

definition artifact_exists :: "Store \<Rightarrow> fingerprint \<Rightarrow> bool" where
  "artifact_exists s fp = (summary_txt s fp \<noteq> None \<and> form_data_json s fp \<noteq> None)"

text \<open>
  Modelled from the spec: step 3a, absent from the repository. The raw content is
  stored under the display name.
\<close>

definition persist_raw :: "Store \<Rightarrow> UploadRecord \<Rightarrow> Store" where
  "persist_raw s u = s\<lparr>raw := (raw s)(displayName u \<mapsto> content u)\<rparr>"

text \<open>
  Modelled from the spec: step 3c, absent from the repository. The artifact is
  committed under its fingerprint in one write, summary and form data together.
\<close>

definition persist_artifact :: "Store \<Rightarrow> ProcessedArtifact \<Rightarrow> byte list \<Rightarrow> Store" where
  "persist_artifact s a pdf =
     s\<lparr>summary_txt := (summary_txt s)(sourceFingerprint a \<mapsto> summary a),
       form_data_json := (form_data_json s)(sourceFingerprint a \<mapsto> formData a),
       raw_pdf := (raw_pdf s)(sourceFingerprint a \<mapsto> pdf)\<rparr>"

definition make_row :: "ProcessedArtifact \<Rightarrow> string \<Rightarrow> DatasetRow" where
  "make_row a name =
     \<lparr>row_cells = formData a, filename = name, fingerprint = sourceFingerprint a\<rparr>"

text \<open>
  Modelled from the spec: the conditional write of the object store client
  (section 6), which the repository does not implement.
  \<^verbatim>\<open>put(key, bytes, ifMatchVersion)\<close> on the cumulative dataset goes through only if
  the dataset still has the version that was read.
\<close>

definition put_trials :: "Store \<Rightarrow> DatasetRow list \<Rightarrow> nat \<Rightarrow> Store option" where
  "put_trials s rows v =
     (if v = trials_version s
      then Some (s\<lparr>trials_csv := rows, trials_version := Suc (trials_version s)\<rparr>)
      else None)"

text \<open>
  Modelled from the spec: steps 1 to 3d of \<^verbatim>\<open>ingest\<close> for one file, absent from
  the repository, one store operation or extractor call at a time. The commit
  protocol of step 3d reads the dataset, checks that the fingerprint is absent,
  appends and writes back on the version read; a conflicting write is retried a
  bounded number of times and then reported as \<^verbatim>\<open>StorageUnavailable\<close>.
\<close>

datatype Worker =
    CheckExists UploadRecord
  | PersistRaw UploadRecord
  | Extract UploadRecord
  | PersistArtifact UploadRecord ProcessedArtifact
  | ReadDataset nat DatasetRow
  | WriteBack nat DatasetRow "DatasetRow list" nat
  | Finished Outcome

fun wstep :: "hash \<Rightarrow> extractor \<Rightarrow> nat \<Rightarrow> Store \<Rightarrow> Worker \<Rightarrow> Store \<times> Worker" where
  "wstep H extract max_retries s (CheckExists u) =
     (if artifact_exists s (H (content u))
      then (s, Finished (AlreadyProcessed (H (content u))))
      else (s, PersistRaw u))"
| "wstep H extract max_retries s (PersistRaw u) = (persist_raw s u, Extract u)"
| "wstep H extract max_retries s (Extract u) =
     (case extract (content u) of
        Inl reason \<Rightarrow> (s, Finished (ExtractionFailed (H (content u)) reason))
      | Inr (summ, fd) \<Rightarrow>
          (s, PersistArtifact u
                \<lparr>summary = summ, formData = fd, sourceFingerprint = H (content u)\<rparr>))"
| "wstep H extract max_retries s (PersistArtifact u a) =
     (persist_artifact s a (content u), ReadDataset max_retries (make_row a (displayName u)))"
| "wstep H extract max_retries s (ReadDataset n row) =
     (s, WriteBack n row (trials_csv s) (trials_version s))"
| "wstep H extract max_retries s (WriteBack n row rows v) =
     (if fingerprint row \<in> set (map fingerprint rows)
      then (s, Finished (AlreadyProcessed (fingerprint row)))
      else (case put_trials s (rows @ [row]) v of
              Some s' \<Rightarrow> (s', Finished (Ingested (fingerprint row)))
            | None \<Rightarrow>
                (case n of
                   0 \<Rightarrow> (s, Finished (StorageUnavailable (fingerprint row)))
                 | Suc m \<Rightarrow> (s, ReadDataset m row))))"
| "wstep H extract max_retries s (Finished out) = (s, Finished out)"

text \<open>The number of steps a worker has left at most.\<close>

fun rank :: "nat \<Rightarrow> Worker \<Rightarrow> nat" where
  "rank mx (CheckExists u) = 2 * mx + 6"
| "rank mx (PersistRaw u) = 2 * mx + 5"
| "rank mx (Extract u) = 2 * mx + 4"
| "rank mx (PersistArtifact u a) = 2 * mx + 3"
| "rank mx (ReadDataset n row) = 2 * n + 2"
| "rank mx (WriteBack n row rows v) = 2 * n + 1"
| "rank mx (Finished out) = 0"

text \<open>
  Modelled from the spec: the operation \<^verbatim>\<open>ingest(batch)\<close>, absent from the
  repository. A worker is run to its end with no other worker in between: the
  sequential \<^verbatim>\<open>ingest\<close> of one file, and of a batch in input order.
\<close>

function run :: "hash \<Rightarrow> extractor \<Rightarrow> nat \<Rightarrow> Store \<Rightarrow> Worker \<Rightarrow> Outcome \<times> Store" where
  "run H extract mx s w =
     (case w of
        Finished out \<Rightarrow> (out, s)
      | _ \<Rightarrow> (case wstep H extract mx s w of (s', w') \<Rightarrow> run H extract mx s' w'))"
  by pat_completeness auto
termination
  apply (relation "measure (\<lambda>(H, extract, mx, s, w). rank mx w)")
  apply (auto split: sum.splits option.splits nat.splits if_splits prod.splits)
  done

definition ingest_one :: "hash \<Rightarrow> extractor \<Rightarrow> nat \<Rightarrow> Store \<Rightarrow> UploadRecord \<Rightarrow> Outcome \<times> Store" where
  "ingest_one H extract mx s u = run H extract mx s (CheckExists u)"

fun ingest ::
  "hash \<Rightarrow> extractor \<Rightarrow> nat \<Rightarrow> Store \<Rightarrow> UploadRecord list \<Rightarrow> Outcome list \<times> Store" where
  "ingest H extract mx s [] = ([], s)"
| "ingest H extract mx s (u # us) =
     (case ingest_one H extract mx s u of
        (out, s1) \<Rightarrow>
          (case ingest H extract mx s1 us of
             (outs, s2) \<Rightarrow> (out # outs, s2)))"

text \<open>
  Modelled from the spec: concurrent invocations of \<^verbatim>\<open>ingest\<close> (sections 4.1
  and 5), absent from the repository. A configuration is the store and the workers
  in flight. An invocation of \<^verbatim>\<open>ingest\<close> adds a worker for a file; any worker
  may take the next step.
\<close>

inductive reachable :: "hash \<Rightarrow> extractor \<Rightarrow> nat \<Rightarrow> Store \<times> Worker list \<Rightarrow> bool"
  for H :: hash and ex :: extractor and mx :: nat where
  start: "reachable H ex mx (empty_store, [])"
| invoke: "reachable H ex mx (s, ws) \<Longrightarrow> reachable H ex mx (s, ws @ [CheckExists u])"
| advance: "reachable H ex mx (s, ws) \<Longrightarrow> i < length ws \<Longrightarrow>
            wstep H ex mx s (ws ! i) = (s', w') \<Longrightarrow>
            reachable H ex mx (s', ws[i := w'])"


text \<open>The fingerprint an outcome reports.\<close>

fun outcome_fingerprint :: "Outcome \<Rightarrow> fingerprint" where
  "outcome_fingerprint (Ingested fp) = fp"
| "outcome_fingerprint (AlreadyProcessed fp) = fp"
| "outcome_fingerprint (ExtractionFailed fp reason) = fp"
| "outcome_fingerprint (StorageUnavailable fp) = fp"


section \<open>Concrete inputs\<close>

text \<open>
  Inputs on which the theorems below are evaluated. The codec and the parser stand
  for \<^verbatim>\<open>bytes.decode\<close> and \<^verbatim>\<open>pandas.read_csv\<close> on ASCII text: bytes below 128 are
  their own code points, lines end at a newline and cells at a comma.
\<close>

fun ascii_decode :: "byte list \<Rightarrow> py_exception + string" where
  "ascii_decode [] = Inr []"
| "ascii_decode (b # bs) =
     (if b < 0x80 then map_sum id ((#) (char_of (unat b))) (ascii_decode bs)
      else Inl (Raised UnicodeDecodeError ''invalid start byte''))"

fun split_on :: "char \<Rightarrow> string \<Rightarrow> string list" where
  "split_on sep [] = [[]]"
| "split_on sep (c # cs) =
     (if c = sep then [] # split_on sep cs
      else (case split_on sep cs of [] \<Rightarrow> [[c]] | x # xs \<Rightarrow> (c # x) # xs))"

definition csv_cells :: "string \<Rightarrow> py_exception + string list list" where
  "csv_cells t =
     (if t = [] then Inl (Raised ParserError ''No columns to parse from file'')
      else Inr (map (split_on CHR '','') (split_on NL t)))"

definition example_csv :: "byte list" where
  "example_csv = [0x69, 0x64, 0x2C, 0x70, 0x0A, 0x37, 0x2C, 0x32]"

definition trials_only_store :: s3_client where
  "trials_only_store =
     \<lparr>buckets = [BUCKET \<mapsto> [''table/trials.csv'' \<mapsto> example_csv]], s3_calls = []\<rparr>"

definition clinical_trials_store :: s3_client where
  "clinical_trials_store =
     \<lparr>buckets = [BUCKET \<mapsto> [''table/clinical_trials.csv'' \<mapsto> example_csv]], s3_calls = []\<rparr>"

definition example_client :: openai_client where
  "example_client = \<lparr>api_key = ''sk-test'', sent = []\<rparr>"

definition quota_backend :: backend where
  "quota_backend req = Inl (Raised RateLimitError ''insufficient_quota'')"

definition hello_backend :: backend where
  "hello_backend req =
     Inr \<lparr>choices = [\<lparr>message = \<lparr>msg_role = ''assistant'', msg_content = Some ''Hello''\<rparr>\<rparr>]\<rparr>"

definition bare_interpreter :: interpreter where
  "bare_interpreter = \<lparr>environ = Map.empty, openai_constructed = []\<rparr>"

definition keyed_interpreter :: interpreter where
  "keyed_interpreter = \<lparr>environ = [''API_KEY'' \<mapsto> ''sk-test''], openai_constructed = []\<rparr>"

definition example_hash :: hash where
  "example_hash bs = map (\<lambda>b. char_of (unat b)) bs"

definition example_upload :: UploadRecord where
  "example_upload = \<lparr>content = [0x25, 0x50, 0x44, 0x46], displayName = ''trial1.pdf''\<rparr>"

definition example_upload_renamed :: UploadRecord where
  "example_upload_renamed = \<lparr>content = [0x25, 0x50, 0x44, 0x46], displayName = ''copy.pdf''\<rparr>"


definition failing_extractor :: extractor where
  "failing_extractor bs = Inl ''unreadable''"

definition example_extractor :: extractor where
  "example_extractor bs = Inr (''A phase 2 trial'', [(''phase'', ''2'')])"


section \<open>Properties of the notebook's functions\<close>

subsection \<open>\<^verbatim>\<open>query_gpt\<close>\<close>

lemma query_gpt_sent:
  "sent (snd (query_gpt backend cl prompt system_prompt model temperature)) =
     sent cl @ [query_gpt_request prompt system_prompt model temperature]"
  by (simp add: query_gpt_def query_gpt_try_def chat_completions_create_def
      split: sum.splits list.splits)

lemma query_gpt_success:
  "backend (query_gpt_request prompt system_prompt model temperature) = Inr response \<Longrightarrow>
   choices response = c # cs \<Longrightarrow>
   fst (query_gpt backend cl prompt system_prompt model temperature) = Inr (PyMessage (message c))"
  by (simp add: query_gpt_def query_gpt_try_def chat_completions_create_def)

lemma query_gpt_no_choices:
  "backend (query_gpt_request prompt system_prompt model temperature) = Inr response \<Longrightarrow>
   choices response = [] \<Longrightarrow>
   fst (query_gpt backend cl prompt system_prompt model temperature) =
     Inr (PyStr ''Error in GPT query'')"
  by (simp add: query_gpt_def query_gpt_try_def chat_completions_create_def)

lemma str_format_rowwise:
  "str_format DATA_VIEWER_ROWWISE_PROMPT [user_prompt, row_data] =
     Inr ([NL] @ ''# User Prompt'' @ [NL, NL] @ user_prompt @ [NL, NL] @ ''---  '' @ [NL, NL] @
          ''# Row Data'' @ [NL, NL] @ ''```'' @ [NL] @ row_data @ [NL] @ ''```'' @ [NL])"
  by (simp add: DATA_VIEWER_ROWWISE_PROMPT_def NL_def)

text \<open>
  C2: whatever the prompt and the system prompt, when the chat-completion call
  raises an exception (a quota error, a network error, any instance of
  \<^verbatim>\<open>Exception\<close>), \<^verbatim>\<open>query_gpt\<close> does not propagate it: it returns the string
  \<^verbatim>\<open>"Error in GPT query"\<close>.
\<close>

theorem query_gpt_catches_failure:
  assumes "backend (query_gpt_request prompt system_prompt model temperature) = Inl e"
    and "isinstance_Exception e"
  shows "fst (query_gpt backend cl prompt system_prompt model temperature) =
           Inr (PyStr ''Error in GPT query'')"
  using assms by (simp add: query_gpt_def query_gpt_try_def chat_completions_create_def)

theorem query_gpt_catches_failure_witness:
  "quota_backend (query_gpt_request ''test'' ''you are a helpful assistant''
       query_gpt_default_model query_gpt_default_temperature) =
     Inl (Raised RateLimitError ''insufficient_quota'')
   \<and> isinstance_Exception (Raised RateLimitError ''insufficient_quota'')
   \<and> fst (query_gpt quota_backend example_client ''test'' ''you are a helpful assistant''
          query_gpt_default_model query_gpt_default_temperature) =
       Inr (PyStr ''Error in GPT query'')"
  using query_gpt_catches_failure [of quota_backend "''test''" "''you are a helpful assistant''"
      query_gpt_default_model query_gpt_default_temperature
      "Raised RateLimitError ''insufficient_quota''" example_client]
  by (simp add: quota_backend_def)

text \<open>
  C3: when the chat-completion call succeeds, \<^verbatim>\<open>query_gpt\<close> should return the text
  content of the completion, a string. On the successful call below it returns the
  message object of the first choice instead, not the string \<^verbatim>\<open>"Hello"\<close> that the
  message holds: \<^verbatim>\<open>.content.strip()\<close> is commented out in the return statement.
\<close>

theorem query_gpt_returns_message_object:
  "fst (query_gpt hello_backend example_client ''test'' ''you are a helpful assistant''
          query_gpt_default_model query_gpt_default_temperature) =
     Inr (PyMessage \<lparr>msg_role = ''assistant'', msg_content = Some ''Hello''\<rparr>)
   \<and> fst (query_gpt hello_backend example_client ''test'' ''you are a helpful assistant''
          query_gpt_default_model query_gpt_default_temperature) \<noteq> Inr (PyStr ''Hello'')"
  by (simp add: query_gpt_def query_gpt_try_def chat_completions_create_def hello_backend_def)

text \<open>
  C9: for every user prompt and every row of data, the row-wise function made by
  \<^verbatim>\<open>generate_data_viewer_gpt_apply_func\<close> sends exactly one request to the completion
  API: model \<^verbatim>\<open>"gpt-4o"\<close>, temperature 0.0, \<^verbatim>\<open>max_tokens\<close> 4096, the system message
  \<^verbatim>\<open>DATA_VIEWER_SYSTEM_PROMPT\<close> and the user message
  \<^verbatim>\<open>DATA_VIEWER_ROWWISE_PROMPT.format(user_prompt, row_data)\<close>, which is the template
  with the user prompt and the row data in place of its two fields.
\<close>

theorem apply_func_request:
  "sent (snd (generate_data_viewer_gpt_apply_func backend user_prompt cl row_data)) =
     sent cl @
     [\<lparr>req_model = ''gpt-4o'',
       req_messages =
         [(''system'', DATA_VIEWER_SYSTEM_PROMPT),
          (''user'',
           [NL] @ ''# User Prompt'' @ [NL, NL] @ user_prompt @ [NL, NL] @ ''---  '' @ [NL, NL] @
           ''# Row Data'' @ [NL, NL] @ ''```'' @ [NL] @ row_data @ [NL] @ ''```'' @ [NL])],
       req_max_tokens = 4096,
       req_temperature = 0\<rparr>]
   \<and> str_format DATA_VIEWER_ROWWISE_PROMPT [user_prompt, row_data] =
       Inr ([NL] @ ''# User Prompt'' @ [NL, NL] @ user_prompt @ [NL, NL] @ ''---  '' @ [NL, NL] @
            ''# Row Data'' @ [NL, NL] @ ''```'' @ [NL] @ row_data @ [NL] @ ''```'' @ [NL])"
  by (simp add: generate_data_viewer_gpt_apply_func_def str_format_rowwise query_gpt_sent
      query_gpt_request_def query_gpt_default_model_def query_gpt_default_temperature_def)

subsection \<open>Module initialisation\<close>

text \<open>
  C10: in every environment in which \<^verbatim>\<open>API_KEY\<close> is unset or empty when it is read
  (after \<^verbatim>\<open>load_dotenv\<close>), module initialisation raises ValueError and no completion
  client has been constructed; when initialisation succeeds, the one client
  constructed has a non-empty API key, the value of \<^verbatim>\<open>API_KEY\<close>.
\<close>

theorem module_init_requires_api_key:
  "(environ (load_dotenv dotenv st) ''API_KEY'' = None
      \<or> environ (load_dotenv dotenv st) ''API_KEY'' = Some [] \<longrightarrow>
    fst (module_init dotenv st) = Inl (Raised ValueError ''API_KEY environment variable not set'')
    \<and> openai_constructed (snd (module_init dotenv st)) = openai_constructed st)
   \<and> (module_init dotenv st = (Inr cl, st') \<longrightarrow>
        api_key cl \<noteq> []
        \<and> environ (load_dotenv dotenv st) ''API_KEY'' = Some (api_key cl)
        \<and> openai_constructed st' = openai_constructed st @ [api_key cl])"
  by (auto simp: module_init_def init_client_def OpenAI_def load_dotenv_def
      split: option.splits if_splits)

theorem module_init_requires_api_key_witness:
  "environ (load_dotenv Map.empty bare_interpreter) ''API_KEY'' = None
   \<and> fst (module_init Map.empty bare_interpreter) =
       Inl (Raised ValueError ''API_KEY environment variable not set'')
   \<and> openai_constructed (snd (module_init Map.empty bare_interpreter)) = []
   \<and> module_init Map.empty keyed_interpreter =
       (Inr \<lparr>api_key = ''sk-test'', sent = []\<rparr>,
        keyed_interpreter\<lparr>openai_constructed := [''sk-test'']\<rparr>)
   \<and> api_key \<lparr>api_key = ''sk-test'', sent = []\<rparr> \<noteq> []"
  using module_init_requires_api_key [of Map.empty bare_interpreter]
    module_init_requires_api_key [of Map.empty keyed_interpreter
      "\<lparr>api_key = ''sk-test'', sent = []\<rparr>" "keyed_interpreter\<lparr>openai_constructed := [''sk-test'']\<rparr>"]
  by (simp add: module_init_def init_client_def OpenAI_def load_dotenv_def
      bare_interpreter_def keyed_interpreter_def)

subsection \<open>The dataset reader\<close>

text \<open>
  C4 as stated fails: the default key of the reader is
  \<^verbatim>\<open>table/clinical_trials.csv\<close>. On a store that holds the dataset at
  \<^verbatim>\<open>table/trials.csv\<close> only, the reader called with its default key raises
  \<^verbatim>\<open>NoSuchKey\<close>, although the bytes stored there decode and parse.
\<close>

theorem load_default_key_counterexample:
  "the (buckets trials_only_store BUCKET) ''table/trials.csv'' = Some example_csv
   \<and> ascii_decode example_csv = Inr (''id,p'' @ [NL] @ ''7,2'')
   \<and> csv_cells (''id,p'' @ [NL] @ ''7,2'') = Inr [[''id'', ''p''], [''7'', ''2'']]
   \<and> fst (s3_load_trials_csv ascii_decode csv_cells trials_only_store BUCKET
            s3_load_trials_csv_default_key) =
       Inl (Raised NoSuchKey ''table/clinical_trials.csv'')"
  by code_simp

text \<open>
  C4, amended: for every object store that holds UTF-8 CSV bytes at the key
  \<^verbatim>\<open>table/clinical_trials.csv\<close> of the bucket, the dataset reader called with its
  default key loads that object and returns the table parsed from those bytes.
\<close>

theorem load_default_key:
  assumes "buckets cl bucket = Some objs"
    and "objs ''table/clinical_trials.csv'' = Some body"
    and "decode body = Inr csv_data"
  shows "fst (s3_load_trials_csv decode read_csv cl bucket s3_load_trials_csv_default_key) =
           read_csv csv_data"
  using assms
  by (simp add: s3_load_trials_csv_def get_object_def s3_load_trials_csv_default_key_def)

theorem load_default_key_witness:
  "buckets clinical_trials_store BUCKET = Some [''table/clinical_trials.csv'' \<mapsto> example_csv]
   \<and> [''table/clinical_trials.csv'' \<mapsto> example_csv] ''table/clinical_trials.csv'' = Some example_csv
   \<and> ascii_decode example_csv = Inr (''id,p'' @ [NL] @ ''7,2'')
   \<and> fst (s3_load_trials_csv ascii_decode csv_cells clinical_trials_store BUCKET
            s3_load_trials_csv_default_key) = Inr [[''id'', ''p''], [''7'', ''2'']]"
proof -
  have b: "buckets clinical_trials_store BUCKET = Some [''table/clinical_trials.csv'' \<mapsto> example_csv]"
    by (simp add: clinical_trials_store_def)
  have k: "[''table/clinical_trials.csv'' \<mapsto> example_csv] ''table/clinical_trials.csv'' = Some example_csv"
    by simp
  have d: "ascii_decode example_csv = Inr (''id,p'' @ [NL] @ ''7,2'')"
    by code_simp
  have p: "csv_cells (''id,p'' @ [NL] @ ''7,2'') = Inr [[''id'', ''p''], [''7'', ''2'']]"
    by code_simp
  from load_default_key [where cl = clinical_trials_store and bucket = BUCKET
      and objs = "[''table/clinical_trials.csv'' \<mapsto> example_csv]" and body = example_csv
      and decode = ascii_decode and csv_data = "''id,p'' @ [NL] @ ''7,2''"
      and read_csv = csv_cells, OF b k d] b k d p
  show ?thesis by simp
qed

text \<open>
  C5: for every object store, bucket and key, a call of the dataset reader leaves the
  buckets of the store as they were, and the only call it makes on the store is one
  \<^verbatim>\<open>get_object\<close>; this holds when the call raises too.
\<close>

theorem load_reads_only:
  "buckets (snd (s3_load_trials_csv decode read_csv cl bucket key)) = buckets cl
   \<and> s3_calls (snd (s3_load_trials_csv decode read_csv cl bucket key)) =
       s3_calls cl @ [GetObject bucket key]"
  by (simp add: s3_load_trials_csv_def get_object_def split: option.splits sum.splits)

section \<open>Properties of the ingestion pipeline\<close>

subsection \<open>One file, run to its end\<close>

declare run.simps [simp del]

lemma run_Finished: "run H ex mx s (Finished out) = (out, s)"
  by (simp add: run.simps)

lemma run_CheckExists:
  "run H ex mx s (CheckExists u) =
     (if artifact_exists s (H (content u)) then (AlreadyProcessed (H (content u)), s)
      else run H ex mx s (PersistRaw u))"
  by (simp add: run.simps [of _ _ _ _ "CheckExists u"] run_Finished)

lemma run_PersistRaw:
  "run H ex mx s (PersistRaw u) = run H ex mx (persist_raw s u) (Extract u)"
  by (simp add: run.simps [of _ _ _ _ "PersistRaw u"])

lemma run_Extract:
  "run H ex mx s (Extract u) =
     (case ex (content u) of
        Inl reason \<Rightarrow> (ExtractionFailed (H (content u)) reason, s)
      | Inr (summ, fd) \<Rightarrow>
          run H ex mx s (PersistArtifact u
             \<lparr>summary = summ, formData = fd, sourceFingerprint = H (content u)\<rparr>))"
  by (simp add: run.simps [of _ _ _ _ "Extract u"] run_Finished split: sum.splits prod.splits)

lemma run_PersistArtifact:
  "run H ex mx s (PersistArtifact u a) =
     run H ex mx (persist_artifact s a (content u)) (ReadDataset mx (make_row a (displayName u)))"
  by (simp add: run.simps [of _ _ _ _ "PersistArtifact u a"])

lemma run_ReadDataset:
  "run H ex mx s (ReadDataset n row) =
     (if fingerprint row \<in> set (map fingerprint (trials_csv s))
      then (AlreadyProcessed (fingerprint row), s)
      else (Ingested (fingerprint row),
            s\<lparr>trials_csv := trials_csv s @ [row], trials_version := Suc (trials_version s)\<rparr>))"
  by (simp add: run.simps [of _ _ _ _ "ReadDataset n row"]
      run.simps [of _ _ _ _ "WriteBack n row rows v" for rows v] run_Finished put_trials_def)

lemma ingest_one_existing:
  "artifact_exists s (H (content u)) \<Longrightarrow>
   ingest_one H ex mx s u = (AlreadyProcessed (H (content u)), s)"
  by (simp add: ingest_one_def run_CheckExists)

lemma ingest_one_failed:
  "\<not> artifact_exists s (H (content u)) \<Longrightarrow> ex (content u) = Inl reason \<Longrightarrow>
   ingest_one H ex mx s u = (ExtractionFailed (H (content u)) reason, persist_raw s u)"
  by (simp add: ingest_one_def run_CheckExists run_PersistRaw run_Extract)

lemma ingest_one_new:
  "\<not> artifact_exists s (H (content u)) \<Longrightarrow> ex (content u) = Inr (summ, fd) \<Longrightarrow>
   a = \<lparr>summary = summ, formData = fd, sourceFingerprint = H (content u)\<rparr> \<Longrightarrow>
   s1 = persist_artifact (persist_raw s u) a (content u) \<Longrightarrow>
   ingest_one H ex mx s u =
     (if H (content u) \<in> set (map fingerprint (trials_csv s))
      then (AlreadyProcessed (H (content u)), s1)
      else (Ingested (H (content u)),
            s1\<lparr>trials_csv := trials_csv s @ [make_row a (displayName u)],
               trials_version := Suc (trials_version s)\<rparr>))"
  by (simp add: ingest_one_def run_CheckExists run_PersistRaw run_Extract run_PersistArtifact
      run_ReadDataset make_row_def persist_artifact_def persist_raw_def)

lemma ingest_one_cases:
  obtains
    (existing) "artifact_exists s (H (content u))"
      "ingest_one H ex mx s u = (AlreadyProcessed (H (content u)), s)"
  | (failed) reason where "\<not> artifact_exists s (H (content u))" "ex (content u) = Inl reason"
      "ingest_one H ex mx s u = (ExtractionFailed (H (content u)) reason, persist_raw s u)"
  | (present) summ fd where "\<not> artifact_exists s (H (content u))"
      "ex (content u) = Inr (summ, fd)"
      "H (content u) \<in> set (map fingerprint (trials_csv s))"
      "ingest_one H ex mx s u =
         (AlreadyProcessed (H (content u)),
          persist_artifact (persist_raw s u)
            \<lparr>summary = summ, formData = fd, sourceFingerprint = H (content u)\<rparr> (content u))"
  | (new) summ fd where "\<not> artifact_exists s (H (content u))"
      "ex (content u) = Inr (summ, fd)"
      "H (content u) \<notin> set (map fingerprint (trials_csv s))"
      "ingest_one H ex mx s u =
         (Ingested (H (content u)),
          (persist_artifact (persist_raw s u)
             \<lparr>summary = summ, formData = fd, sourceFingerprint = H (content u)\<rparr> (content u))
          \<lparr>trials_csv := trials_csv s @
              [make_row \<lparr>summary = summ, formData = fd, sourceFingerprint = H (content u)\<rparr>
                 (displayName u)],
            trials_version := Suc (trials_version s)\<rparr>)"
proof (cases "artifact_exists s (H (content u))")
  case True
  then show ?thesis using existing ingest_one_existing by blast
next
  case no: False
  show ?thesis
  proof (cases "ex (content u)")
    case (Inl reason)
    then show ?thesis using failed no ingest_one_failed by blast
  next
    case (Inr a)
    obtain summ fd where a: "a = (summ, fd)" by (cases a)
    show ?thesis
    proof (cases "H (content u) \<in> set (map fingerprint (trials_csv s))")
      case True
      with no Inr a show ?thesis
        using present [of summ fd] ingest_one_new [of s H u ex summ fd _ _ mx] by simp
    next
      case False
      with no Inr a show ?thesis
        using new [of summ fd] ingest_one_new [of s H u ex summ fd _ _ mx] by simp
    qed
  qed
qed

lemma ingest_one_fingerprint:
  "outcome_fingerprint (fst (ingest_one H ex mx s u)) = H (content u)"
  by (cases rule: ingest_one_cases [of s H u ex mx]) simp_all

lemma ingest_one_artifact_exists:
  "ex (content u) = Inr a \<Longrightarrow> artifact_exists (snd (ingest_one H ex mx s u)) (H (content u))"
  by (cases rule: ingest_one_cases [of s H u ex mx])
     (simp_all add: artifact_exists_def persist_artifact_def persist_raw_def)


lemma ingest_Cons:
  "ingest H ex mx s (u # us) =
     (fst (ingest_one H ex mx s u) # fst (ingest H ex mx (snd (ingest_one H ex mx s u)) us),
      snd (ingest H ex mx (snd (ingest_one H ex mx s u)) us))"
  by (simp split: prod.splits)

declare ingest.simps(2) [simp del]


lemma ingest_single:
  "ingest H ex mx s [u] = ([fst (ingest_one H ex mx s u)], snd (ingest_one H ex mx s u))"
  by (simp add: ingest_Cons)






subsection \<open>Interleaved workers\<close>




lemma wstep_artifact_domains:
  assumes "wstep H ex mx s w = (s', w')" and "dom (summary_txt s) = dom (form_data_json s)"
  shows "dom (summary_txt s') = dom (form_data_json s')"
  using assms
  by (cases w)
     (clarsimp simp: persist_raw_def persist_artifact_def put_trials_def
        split: if_splits sum.splits prod.splits nat.splits)+




lemma reachable_artifact_domains:
  "reachable H ex mx c \<Longrightarrow> dom (summary_txt (fst c)) = dom (form_data_json (fst c))"
proof (induction rule: reachable.induct)
  case start
  then show ?case by (simp add: empty_store_def)
next
  case (invoke s ws u)
  then show ?case by simp
next
  case (advance s ws i s' w')
  from wstep_artifact_domains [OF advance.hyps(3)] advance.IH show ?case by simp
qed

text \<open>A sequential run of one file is one of the interleavings.\<close>

lemma run_reachable:
  "reachable H ex mx (s, ws @ [w]) \<Longrightarrow>
   reachable H ex mx (snd (run H ex mx s w), ws @ [Finished (fst (run H ex mx s w))])"
proof (induction H ex mx s w rule: run.induct)
  case (1 H ex mx s w)
  show ?case
  proof (cases "\<exists>out. w = Finished out")
    case True
    with "1.prems" show ?thesis by (auto simp: run_Finished)
  next
    case False
    obtain s' w' where st: "wstep H ex mx s w = (s', w')"
      by (cases "wstep H ex mx s w")
    have "reachable H ex mx (s', (ws @ [w])[length ws := w'])"
      by (rule reachable.advance [OF "1.prems"]) (simp_all add: st)
    then have r: "reachable H ex mx (s', ws @ [w'])" by simp
    have eq: "run H ex mx s w = run H ex mx s' w'"
      using False st by (subst run.simps) (cases w; auto)
    from False st r have "reachable H ex mx
        (snd (run H ex mx s' w'), ws @ [Finished (fst (run H ex mx s' w'))])"
      by (cases w) (auto intro: "1.IH")
    with eq show ?thesis by simp
  qed
qed

lemma ingest_one_reachable:
  "reachable H ex mx (s, ws) \<Longrightarrow>
   reachable H ex mx
     (snd (ingest_one H ex mx s u), ws @ [Finished (fst (ingest_one H ex mx s u))])"
  unfolding ingest_one_def by (rule run_reachable) (rule reachable.invoke)



subsection \<open>At most one row per fingerprint\<close>




subsection \<open>The fingerprint depends on the content only\<close>

text \<open>
  C6 as stated fails in its last part: two uploads of the same bytes under different
  names get the same fingerprint, but when the extractor fails on these bytes the
  second upload is not skipped as a duplicate; it is extracted again and reported
  as \<^verbatim>\<open>ExtractionFailed\<close>.
\<close>

theorem duplicate_content_counterexample:
  "content example_upload = content example_upload_renamed
   \<and> displayName example_upload \<noteq> displayName example_upload_renamed
   \<and> fst (ingest example_hash failing_extractor 3 empty_store
            [example_upload, example_upload_renamed]) =
       [ExtractionFailed (example_hash (content example_upload)) ''unreadable'',
        ExtractionFailed (example_hash (content example_upload)) ''unreadable'']"
  by code_simp

text \<open>
  C6, amended: for every content byte string and every pair of filenames, the
  fingerprint computed during ingestion is the same for both uploads (it depends on
  the content bytes only); when extraction succeeds on the content, the second
  upload is treated as a duplicate and skipped: its outcome is \<^verbatim>\<open>AlreadyProcessed\<close>
  and it changes nothing in the store.
\<close>

theorem fingerprint_stability:
  assumes "content u1 = content u2"
  shows "map outcome_fingerprint (fst (ingest H ex mx s [u1, u2])) =
           [H (content u1), H (content u1)]
         \<and> (ex (content u1) = Inr a \<longrightarrow>
              fst (ingest H ex mx s [u1, u2]) =
                [fst (ingest_one H ex mx s u1), AlreadyProcessed (H (content u1))]
              \<and> snd (ingest H ex mx s [u1, u2]) = snd (ingest H ex mx s [u1]))"
proof -
  have fps: "map outcome_fingerprint (fst (ingest H ex mx s [u1, u2])) =
      [H (content u1), H (content u1)]"
    using ingest_one_fingerprint [of H ex mx s u1]
      ingest_one_fingerprint [of H ex mx "snd (ingest_one H ex mx s u1)" u2] assms
    by (simp add: ingest_Cons)
  have dup: "ingest H ex mx s [u1, u2] =
      ([fst (ingest_one H ex mx s u1), AlreadyProcessed (H (content u1))],
       snd (ingest_one H ex mx s u1))"
    if "ex (content u1) = Inr a"
  proof -
    from ingest_one_artifact_exists [where ex = ex and u = u1 and a = a and H = H
        and mx = mx and s = s, OF that] assms
    have "artifact_exists (snd (ingest_one H ex mx s u1)) (H (content u2))" by simp
    from ingest_one_existing [where s = "snd (ingest_one H ex mx s u1)" and H = H
        and u = u2 and ex = ex and mx = mx, OF this] assms
    show ?thesis
      by (simp add: ingest_Cons)
  qed
  from fps dup show ?thesis by (simp add: ingest_single)
qed

theorem fingerprint_stability_witness:
  "content example_upload = content example_upload_renamed
   \<and> example_extractor (content example_upload) = Inr (''A phase 2 trial'', [(''phase'', ''2'')])
   \<and> map outcome_fingerprint
        (fst (ingest example_hash example_extractor 3 empty_store
           [example_upload, example_upload_renamed])) =
       [example_hash (content example_upload), example_hash (content example_upload)]
   \<and> fst (ingest example_hash example_extractor 3 empty_store
           [example_upload, example_upload_renamed]) =
       [fst (ingest_one example_hash example_extractor 3 empty_store example_upload),
        AlreadyProcessed (example_hash (content example_upload))]
   \<and> snd (ingest example_hash example_extractor 3 empty_store
           [example_upload, example_upload_renamed]) =
       snd (ingest example_hash example_extractor 3 empty_store [example_upload])"
proof -
  have c: "content example_upload = content example_upload_renamed"
    by (simp add: example_upload_def example_upload_renamed_def)
  have e: "example_extractor (content example_upload) = Inr (''A phase 2 trial'', [(''phase'', ''2'')])"
    by (simp add: example_extractor_def)
  from c e fingerprint_stability [where ?u1.0 = example_upload and ?u2.0 = example_upload_renamed
      and H = example_hash and ex = example_extractor and mx = 3 and s = empty_store
      and a = "(''A phase 2 trial'', [(''phase'', ''2'')])", OF c]
  show ?thesis by blast
qed

subsection \<open>A failed extraction\<close>

text \<open>
  C7: for every UploadRecord whose extraction fails (the file has no artifact yet, so
  the extractor is called, and it fails), \<^verbatim>\<open>ingest\<close> returns \<^verbatim>\<open>ExtractionFailed\<close> for
  that file with the reason, and writes no artifact and no row: the processed
  objects, the dataset and its version are as before, no artifact exists for the
  fingerprint, and a retry is extracted again instead of being taken for processed.
  Only the raw upload of step 3a is stored.
\<close>

theorem extraction_failure_leaves_no_trace:
  assumes "\<not> artifact_exists s (H (content u))" and "ex (content u) = Inl reason"
  shows "fst (ingest H ex mx s [u]) = [ExtractionFailed (H (content u)) reason]
         \<and> summary_txt (snd (ingest H ex mx s [u])) = summary_txt s
         \<and> form_data_json (snd (ingest H ex mx s [u])) = form_data_json s
         \<and> raw_pdf (snd (ingest H ex mx s [u])) = raw_pdf s
         \<and> trials_csv (snd (ingest H ex mx s [u])) = trials_csv s
         \<and> trials_version (snd (ingest H ex mx s [u])) = trials_version s
         \<and> \<not> artifact_exists (snd (ingest H ex mx s [u])) (H (content u))
         \<and> fst (ingest H ex mx (snd (ingest H ex mx s [u])) [u]) =
             [ExtractionFailed (H (content u)) reason]"
proof -
  have first: "ingest H ex mx s [u] =
      ([ExtractionFailed (H (content u)) reason], persist_raw s u)"
    using ingest_one_failed [where s = s and H = H and u = u and ex = ex
        and reason = reason and mx = mx, OF assms]
    by (simp add: ingest_single)
  have no: "\<not> artifact_exists (persist_raw s u) (H (content u))"
    using assms(1) by (simp add: artifact_exists_def persist_raw_def)
  have retry: "ingest H ex mx (persist_raw s u) [u] =
      ([ExtractionFailed (H (content u)) reason], persist_raw (persist_raw s u) u)"
    using ingest_one_failed [where s = "persist_raw s u" and H = H and u = u and ex = ex
        and reason = reason and mx = mx, OF no assms(2)]
    by (simp add: ingest_single)
  from first no retry show ?thesis by (simp add: persist_raw_def)
qed

theorem extraction_failure_leaves_no_trace_witness:
  "\<not> artifact_exists empty_store (example_hash (content example_upload))
   \<and> failing_extractor (content example_upload) = Inl ''unreadable''
   \<and> fst (ingest example_hash failing_extractor 3 empty_store [example_upload]) =
       [ExtractionFailed (example_hash (content example_upload)) ''unreadable'']
   \<and> trials_csv (snd (ingest example_hash failing_extractor 3 empty_store [example_upload])) = []
   \<and> \<not> artifact_exists
          (snd (ingest example_hash failing_extractor 3 empty_store [example_upload]))
          (example_hash (content example_upload))"
proof -
  have n: "\<not> artifact_exists empty_store (example_hash (content example_upload))"
    by (simp add: artifact_exists_def empty_store_def)
  have e: "failing_extractor (content example_upload) = Inl ''unreadable''"
    by (simp add: failing_extractor_def)
  from n e extraction_failure_leaves_no_trace [where s = empty_store and H = example_hash
      and u = example_upload and ex = failing_extractor and reason = "''unreadable''"
      and mx = 3, OF n e]
  show ?thesis
    by (simp add: empty_store_def)
qed

subsection \<open>Summary and form data appear together\<close>

text \<open>
  C8: in every reachable state of the artifact store, under any interleaving of the
  workers' steps, a summary is stored for a fingerprint F exactly when form data is
  stored for F: no reader finds one without the other.
\<close>

theorem artifact_visibility_atomic:
  assumes "reachable H ex mx (s, ws)"
  shows "(summary_txt s F \<noteq> None) = (form_data_json s F \<noteq> None)"
proof -
  from reachable_artifact_domains [OF assms]
  have "dom (summary_txt s) = dom (form_data_json s)" by simp
  then have "(F \<in> dom (summary_txt s)) = (F \<in> dom (form_data_json s))" by simp
  then show ?thesis by (simp add: dom_def)
qed

theorem artifact_visibility_atomic_witness:
  "reachable example_hash example_extractor 3
     (snd (ingest_one example_hash example_extractor 3 empty_store example_upload),
      [Finished (fst (ingest_one example_hash example_extractor 3 empty_store example_upload))])
   \<and> summary_txt (snd (ingest_one example_hash example_extractor 3 empty_store example_upload))
        (example_hash (content example_upload)) = Some ''A phase 2 trial''
   \<and> form_data_json (snd (ingest_one example_hash example_extractor 3 empty_store example_upload))
        (example_hash (content example_upload)) = Some [(''phase'', ''2'')]
   \<and> ((summary_txt (snd (ingest_one example_hash example_extractor 3 empty_store example_upload))
         (example_hash (content example_upload)) \<noteq> None) =
       (form_data_json (snd (ingest_one example_hash example_extractor 3 empty_store example_upload))
         (example_hash (content example_upload)) \<noteq> None))"
proof -
  have r: "reachable example_hash example_extractor 3
     (snd (ingest_one example_hash example_extractor 3 empty_store example_upload),
      [Finished (fst (ingest_one example_hash example_extractor 3 empty_store example_upload))])"
    using ingest_one_reachable [OF reachable.start, of example_hash example_extractor 3 example_upload]
    by simp
  have s: "summary_txt (snd (ingest_one example_hash example_extractor 3 empty_store example_upload))
        (example_hash (content example_upload)) = Some ''A phase 2 trial''"
    by code_simp
  have f: "form_data_json (snd (ingest_one example_hash example_extractor 3 empty_store example_upload))
        (example_hash (content example_upload)) = Some [(''phase'', ''2'')]"
    by code_simp
  from r s f artifact_visibility_atomic [OF r, of "example_hash (content example_upload)"]
  show ?thesis by simp
qed

end
